theory Spec2Isabelle
  imports Complex_Main
begin

section \<open>Values of the Python program\<close>

text \<open>
  The exceptions the code can raise. \<open>AssertionError\<close>, \<open>ValueError\<close> and
  \<open>RuntimeError\<close> carry the message of the raising statement; \<open>IndexError\<close>,
  \<open>ZeroDivisionError\<close> and \<open>TypeError\<close> are raised by the interpreter and by numpy;
  \<open>ExternalError\<close> stands for whatever an imported library function raises.
\<close>

datatype error =
    AssertionError string
  | ValueError string
  | RuntimeError string
  | IndexError
  | ZeroDivisionError
  | TypeError
  | ExternalError string

text \<open>
  Floating-point numbers are modelled as reals. A numpy division by zero does not raise:
  it yields \<open>nan\<close> or an infinity, so the result of an array division is an \<open>npfloat\<close>.
\<close>

datatype npfloat = Fin real | NaN | PInf | NInf

definition np_true_divide :: "real \<Rightarrow> real \<Rightarrow> npfloat" where
  "np_true_divide a b =
     (if b \<noteq> 0 then Fin (a / b)
      else if a = 0 then NaN
      else if 0 < a then PInf else NInf)"

text \<open>
  The objects passed to the constructor of \<open>HMM\<close>: Python checks no types, so the
  positional arguments are values of one universe.
\<close>

datatype 'om pyobj =
    PyInt int
  | PyFloat real
  | PyArray "npfloat list list"
  | PyOutputModel 'om

text \<open>\<open>np.array(x)\<close>: a number or an arbitrary object becomes a 0-dimensional array.\<close>

datatype 'om ndarray = Arr0 "'om pyobj" | Arr2 "npfloat list list"

fun np_array :: "'om pyobj \<Rightarrow> 'om ndarray" where
  "np_array (PyArray m) = Arr2 m"
| "np_array x = Arr0 x"

text \<open>\<open>a.shape[0]\<close>: the shape of a 0-dimensional array is the empty tuple.\<close>

fun shape0 :: "'om ndarray \<Rightarrow> error + nat" where
  "shape0 (Arr0 x) = Inl IndexError"
| "shape0 (Arr2 m) = Inr (length m)"

text \<open>numpy indexing along an axis of length \<open>n\<close>: negative indices count from the end.\<close>

definition np_index :: "nat \<Rightarrow> int \<Rightarrow> error + nat" where
  "np_index n i =
     (let j = (if i < 0 then int n + i else i)
      in if 0 \<le> j \<and> j < int n then Inr (nat j) else Inl IndexError)"

section \<open>The class HMM\<close>

record 'om HMM =
  h_Tij :: "npfloat list list"
  h_nstates :: nat
  h_lag :: "'om pyobj"
  output_model :: "'om pyobj"
  hidden_state_trajectories :: "int list list option"
  h_Pi :: "npfloat list"
  h_stationary :: bool
  h_reversible :: bool
  h_R :: "complex list list"
  h_D :: "complex list list"
  h_L :: "complex list list"
  h_eigenvalues :: "complex list"

subsection \<open>Properties\<close>

definition initial_distribution :: "'om HMM \<Rightarrow> npfloat list" where
  "initial_distribution h = h_Pi h"

definition stationary_distribution :: "'om HMM \<Rightarrow> error + npfloat list" where
  "stationary_distribution h =
     (if h_stationary h then Inr (h_Pi h)
      else Inl (ValueError ''HMM is not stationary''))"

subsection \<open>count_matrix\<close>

definition np_zeros2 :: "nat \<Rightarrow> nat \<Rightarrow> real list list" where
  "np_zeros2 r c = replicate r (replicate c 0)"

text \<open>\<open>C[i,j] += 1\<close> on a square array with \<open>n\<close> rows.\<close>

definition count_incr :: "nat \<Rightarrow> real list list \<Rightarrow> int \<Rightarrow> int \<Rightarrow> error + real list list" where
  "count_incr n C a b =
     (case np_index n a of
        Inl e \<Rightarrow> Inl e
      | Inr i \<Rightarrow>
          (case np_index n b of
             Inl e \<Rightarrow> Inl e
           | Inr j \<Rightarrow> Inr (C[i := (C ! i)[j := C ! i ! j + 1]])))"

text \<open>The inner loop \<open>for t in range(len(S)-1)\<close>.\<close>

fun count_trajectory :: "nat \<Rightarrow> real list list \<Rightarrow> int list \<Rightarrow> error + real list list" where
  "count_trajectory n C (a # b # S) =
     (case count_incr n C a b of
        Inl e \<Rightarrow> Inl e
      | Inr C' \<Rightarrow> count_trajectory n C' (b # S))"
| "count_trajectory n C S = Inr C"

text \<open>The outer loop \<open>for S in self.hidden_state_trajectories\<close>.\<close>

fun count_trajectories :: "nat \<Rightarrow> real list list \<Rightarrow> int list list \<Rightarrow> error + real list list" where
  "count_trajectories n C [] = Inr C"
| "count_trajectories n C (S # Ss) =
     (case count_trajectory n C S of
        Inl e \<Rightarrow> Inl e
      | Inr C' \<Rightarrow> count_trajectories n C' Ss)"

definition count_matrix :: "'om HMM \<Rightarrow> error + real list list" where
  "count_matrix h =
     (case hidden_state_trajectories h of
        None \<Rightarrow> Inl (RuntimeError ''HMM model does not have a hidden state trajectory.'')
      | Some Ss \<Rightarrow> count_trajectories (h_nstates h) (np_zeros2 (h_nstates h) (h_nstates h)) Ss)"

subsection \<open>The imported analysis functions\<close>

text \<open>
  \<open>pyemma.msm.analysis\<close> is imported, not part of the source tree: its functions are
  parameters of the model, and each of them may raise.
\<close>

datatype norm = Standard | Reversible

record 'om msmana =
  is_transition_matrix :: "'om ndarray \<Rightarrow> error + bool"
  msm_stationary_distribution :: "npfloat list list \<Rightarrow> error + npfloat list"
  is_reversible :: "npfloat list list \<Rightarrow> error + bool"
  rdl_decomposition ::
    "npfloat list list \<Rightarrow> norm \<Rightarrow> error + complex list list \<times> complex list list \<times> complex list list"

subsection \<open>The constructor\<close>

text \<open>
  Lines 76 to 78: a given \<open>Pi\<close> is checked for negative entries and divided by its sum.
\<close>

definition normalize_Pi :: "real list option \<Rightarrow> error + npfloat list option" where
  "normalize_Pi Pi =
     (case Pi of
        None \<Rightarrow> Inr None
      | Some p \<Rightarrow>
          if list_all (\<lambda>x. 0 \<le> x) p
          then Inr (Some (map (\<lambda>x. np_true_divide x (sum_list p)) p))
          else Inl (AssertionError ''Given initial distribution contains negative elements.''))"

text \<open>\<open>np.allclose(a, b)\<close> with numpy's defaults \<open>rtol=1e-05\<close>, \<open>atol=1e-08\<close>.\<close>

fun np_isclose :: "npfloat \<Rightarrow> npfloat \<Rightarrow> bool" where
  "np_isclose (Fin x) (Fin y) = (\<bar>x - y\<bar> \<le> 1 / 10 ^ 8 + (1 / 10 ^ 5) * \<bar>y\<bar>)"
| "np_isclose PInf PInf = True"
| "np_isclose NInf NInf = True"
| "np_isclose a b = False"

definition np_allclose :: "npfloat list \<Rightarrow> npfloat list \<Rightarrow> error + bool" where
  "np_allclose a b =
     (if length a = length b then Inr (list_all2 np_isclose a b)
      else if length a = 1 then Inr (list_all (np_isclose (hd a)) b)
      else if length b = 1 then Inr (list_all (\<lambda>x. np_isclose x (hd b)) a)
      else Inl (ValueError ''operands could not be broadcast together''))"

text \<open>Lines 80 to 93: the initial distribution that is stored in \<open>self._Pi\<close>.\<close>

definition select_Pi ::
  "'om msmana \<Rightarrow> npfloat list list \<Rightarrow> npfloat list option \<Rightarrow> bool \<Rightarrow> error + npfloat list" where
  "select_Pi ext T Pi stationary =
     (if stationary then
        (case msm_stationary_distribution ext T of
           Inl e \<Rightarrow> Inl e
         | Inr pT \<Rightarrow>
             (case Pi of
                None \<Rightarrow> Inr pT
              | Some p \<Rightarrow>
                  (case np_allclose p pT of
                     Inl e \<Rightarrow> Inl e
                   | Inr ok \<Rightarrow>
                       if ok then Inr p
                       else Inl (AssertionError
                         ''Stationary HMM requested, but given distribution is not the stationary distribution of the given transition matrix.''))))
      else
        (case Pi of
           None \<Rightarrow> msm_stationary_distribution ext T
         | Some p \<Rightarrow> Inr p))"

text \<open>Lines 96 to 98.\<close>

definition check_reversible :: "'om msmana \<Rightarrow> npfloat list list \<Rightarrow> bool \<Rightarrow> error + unit" where
  "check_reversible ext T reversible =
     (if reversible then
        (case is_reversible ext T of
           Inl e \<Rightarrow> Inl e
         | Inr ok \<Rightarrow>
             if ok then Inr ()
             else Inl (AssertionError
               ''Reversible HMM requested, but given transition matrix is not reversible.''))
      else Inr ())"

text \<open>\<open>a.real\<close> on every entry of an array.\<close>

definition np_real :: "complex list list \<Rightarrow> complex list list" where
  "np_real m = map (map (\<lambda>z. complex_of_real (Re z))) m"

text \<open>Lines 101 to 108.\<close>

definition decompose ::
  "'om msmana \<Rightarrow> npfloat list list \<Rightarrow> bool \<Rightarrow>
     error + complex list list \<times> complex list list \<times> complex list list" where
  "decompose ext T reversible =
     (if reversible then
        (case rdl_decomposition ext T Reversible of
           Inl e \<Rightarrow> Inl e
         | Inr (R, D, L) \<Rightarrow> Inr (np_real R, np_real D, np_real L))
      else rdl_decomposition ext T Standard)"

text \<open>The number of columns of a two-dimensional array, held as the list of its rows.\<close>

definition ncols :: "'a list list \<Rightarrow> nat" where
  "ncols m = (if m = [] then 0 else length (hd m))"

text \<open>\<open>np.diag\<close> of a two-dimensional array: its main diagonal.\<close>

definition np_diag :: "'a list list \<Rightarrow> 'a list" where
  "np_diag D = map (\<lambda>i. D ! i ! i) [0 ..< min (length D) (ncols D)]"

definition HMM_init ::
  "'om msmana \<Rightarrow> 'om pyobj \<Rightarrow> 'om pyobj \<Rightarrow> 'om pyobj \<Rightarrow> real list option \<Rightarrow> bool \<Rightarrow> bool \<Rightarrow>
     error + 'om HMM" where
  "HMM_init ext Tij om lag Pi stationary reversible =
     (case is_transition_matrix ext (np_array Tij) of
        Inl e \<Rightarrow> Inl e
      | Inr ok \<Rightarrow>
          if \<not> ok then Inl (AssertionError ''Given transition matrix is not a stochastic matrix'')
          else
            (case shape0 (np_array Tij) of
               Inl e \<Rightarrow> Inl e
             | Inr n \<Rightarrow>
                 (case np_array Tij of
                    Arr0 x \<Rightarrow> Inl IndexError
                  | Arr2 T \<Rightarrow>
                      (case normalize_Pi Pi of
                         Inl e \<Rightarrow> Inl e
                       | Inr Pi' \<Rightarrow>
                           (case select_Pi ext T Pi' stationary of
                              Inl e \<Rightarrow> Inl e
                            | Inr p \<Rightarrow>
                                (case check_reversible ext T reversible of
                                   Inl e \<Rightarrow> Inl e
                                 | Inr u \<Rightarrow>
                                     (case decompose ext T reversible of
                                        Inl e \<Rightarrow> Inl e
                                      | Inr (R, D, L) \<Rightarrow>
                                          Inr \<lparr>h_Tij = T, h_nstates = n, h_lag = lag,
                                               output_model = om,
                                               hidden_state_trajectories = None,
                                               h_Pi = p, h_stationary = stationary,
                                               h_reversible = reversible,
                                               h_R = R, h_D = D, h_L = L,
                                               h_eigenvalues = np_diag D\<rparr>)))))))"

subsection \<open>timescales\<close>

text \<open>
  Modelled from the spec: the relaxation time of one eigenvalue \<open>\<lambda>\<close>, which the spec gives
  as \<open>-lagTime / ln(|\<lambda>|)\<close>. An eigenvalue of modulus one stands for an infinite time: the
  spec leaves the choice between an infinite value and leaving the eigenvalue out, and
  asks for \<open>nstates - 1\<close> values, so the value is infinite. For the eigenvalue zero the
  logarithm is minus infinity in floating point and the quotient is zero.
\<close>

definition timescale :: "real \<Rightarrow> complex \<Rightarrow> npfloat" where
  "timescale tau l =
     (if cmod l = 1 then PInf
      else if cmod l = 0 then Fin 0
      else Fin (- tau / ln (cmod l)))"

text \<open>
  Modelled from the spec: \<open>timescales_from_eigenvalues\<close> of pyemma, which is imported and
  not part of the source tree: one relaxation time for every eigenvalue, for a lag time
  that is an integer or a real.
\<close>

definition timescales_from_eigenvalues :: "complex list \<Rightarrow> 'om pyobj \<Rightarrow> error + npfloat list" where
  "timescales_from_eigenvalues evals tau =
     (case tau of
        PyInt k \<Rightarrow> Inr (map (timescale (real_of_int k)) evals)
      | PyFloat x \<Rightarrow> Inr (map (timescale x) evals)
      | _ \<Rightarrow> Inl TypeError)"

text \<open>\<open>ts[1:]\<close> is the tail of the list, and empty for the empty list.\<close>

definition timescales :: "'om HMM \<Rightarrow> error + npfloat list" where
  "timescales h =
     (case timescales_from_eigenvalues (h_eigenvalues h) (h_lag h) of
        Inl e \<Rightarrow> Inl e
      | Inr ts \<Rightarrow> Inr (tl ts))"

subsection \<open>generate_synthetic_state_trajectory\<close>

text \<open>\<open>np.zeros([length])\<close> refuses a negative dimension.\<close>

definition np_zeros1 :: "int \<Rightarrow> error + int list" where
  "np_zeros1 len =
     (if len < 0 then Inl (ValueError ''negative dimensions are not allowed'')
      else Inr (replicate (nat len) 0))"

definition np_load :: "'a list \<Rightarrow> int \<Rightarrow> error + 'a" where
  "np_load xs t = (case np_index (length xs) t of Inl e \<Rightarrow> Inl e | Inr i \<Rightarrow> Inr (xs ! i))"

definition np_store :: "'a list \<Rightarrow> int \<Rightarrow> 'a \<Rightarrow> error + 'a list" where
  "np_store xs t v = (case np_index (length xs) t of Inl e \<Rightarrow> Inl e | Inr i \<Rightarrow> Inr (xs[i := v]))"

text \<open>
  \<open>np.random.choice(range(n), size=1, p=p)\<close> is the parameter \<open>choice\<close>: it takes the
  state of the random source, \<open>n\<close> and \<open>p\<close>, and returns a sample or an error together
  with the new state of the source.

  The loop \<open>for t in range(1,length)\<close>: the row of the previous state is read, a sample is
  drawn from it and stored at \<open>t\<close>.
\<close>

fun generate_loop ::
  "('rng \<Rightarrow> nat \<Rightarrow> npfloat list \<Rightarrow> (error + int) \<times> 'rng) \<Rightarrow> 'om HMM \<Rightarrow> nat list \<Rightarrow> int list \<Rightarrow> 'rng \<Rightarrow>
     (error + int list) \<times> 'rng" where
  "generate_loop choice h [] states rng = (Inr states, rng)"
| "generate_loop choice h (t # ts) states rng =
     (case np_load states (int t - 1) of
        Inl e \<Rightarrow> (Inl e, rng)
      | Inr prev \<Rightarrow>
          (case np_load (h_Tij h) prev of
             Inl e \<Rightarrow> (Inl e, rng)
           | Inr p \<Rightarrow>
               (case choice rng (h_nstates h) p of
                  (Inl e, rng') \<Rightarrow> (Inl e, rng')
                | (Inr s, rng') \<Rightarrow>
                    (case np_store states (int t) s of
                       Inl e \<Rightarrow> (Inl e, rng')
                     | Inr states' \<Rightarrow> generate_loop choice h ts states' rng'))))"

definition generate_synthetic_state_trajectory ::
  "('rng \<Rightarrow> nat \<Rightarrow> npfloat list \<Rightarrow> (error + int) \<times> 'rng) \<Rightarrow> 'om HMM \<Rightarrow> int \<Rightarrow> npfloat list option \<Rightarrow> 'rng \<Rightarrow>
     (error + int list) \<times> 'rng" where
  "generate_synthetic_state_trajectory choice h len initial_Pi rng =
     (case np_zeros1 len of
        Inl e \<Rightarrow> (Inl e, rng)
      | Inr states \<Rightarrow>
          (case choice rng (h_nstates h) (case initial_Pi of Some p \<Rightarrow> p | None \<Rightarrow> h_Pi h) of
             (Inl e, rng') \<Rightarrow> (Inl e, rng')
           | (Inr s, rng') \<Rightarrow>
               (case np_store states 0 s of
                  Inl e \<Rightarrow> (Inl e, rng')
                | Inr states' \<Rightarrow> generate_loop choice h [1 ..< nat len] states' rng')))"

section \<open>The discrete initial model\<close>

subsection \<open>Array operations of numpy\<close>

text \<open>\<open>np.dot\<close> of two-dimensional arrays raises when the inner dimensions differ.\<close>

definition np_dot :: "real list list \<Rightarrow> real list list \<Rightarrow> error + real list list" where
  "np_dot a b =
     (if ncols a \<noteq> length b then Inl (ValueError ''shapes not aligned'')
      else Inr (map (\<lambda>r. map (\<lambda>c. sum_list (map2 (*) r c)) (transpose b)) a))"

text \<open>\<open>np.diag\<close> of a vector: the square matrix with the vector on its diagonal.\<close>

definition np_diag_matrix :: "real list \<Rightarrow> real list list" where
  "np_diag_matrix v =
     map (\<lambda>i. map (\<lambda>j. if i = j then v ! i else 0) [0 ..< length v]) [0 ..< length v]"

definition np_maximum :: "real list list \<Rightarrow> real \<Rightarrow> real list list" where
  "np_maximum X e = map (map (\<lambda>x. max x e)) X"

text \<open>\<open>X / X.sum(axis=1)[:, None]\<close>: every row is divided by its sum.\<close>

definition divide_rows :: "real list list \<Rightarrow> npfloat list list" where
  "divide_rows X = map (\<lambda>row. map (\<lambda>x. np_true_divide x (sum_list row)) row) X"

text \<open>
  Broadcasting the right-hand side of an assignment to the shape \<open>(r, c)\<close>: an axis of
  length one is repeated, any other mismatch raises.
\<close>

definition broadcast_axis :: "nat \<Rightarrow> 'a list \<Rightarrow> error + 'a list" where
  "broadcast_axis n xs =
     (if length xs = n then Inr xs
      else if length xs = 1 then Inr (replicate n (hd xs))
      else Inl (ValueError ''shape mismatch: value array could not be broadcast to indexing result''))"

fun sequence_error :: "(error + 'a) list \<Rightarrow> error + 'a list" where
  "sequence_error [] = Inr []"
| "sequence_error (x # xs) =
     (case x of
        Inl e \<Rightarrow> Inl e
      | Inr y \<Rightarrow> (case sequence_error xs of Inl e \<Rightarrow> Inl e | Inr ys \<Rightarrow> Inr (y # ys)))"

definition broadcast_to :: "nat \<Rightarrow> nat \<Rightarrow> real list list \<Rightarrow> error + real list list" where
  "broadcast_to r c m =
     (case sequence_error (map (broadcast_axis c) m) of
        Inl e \<Rightarrow> Inl e
      | Inr m' \<Rightarrow> broadcast_axis r m')"

text \<open>
  \<open>B[:, idx] = V\<close> for an array \<open>B\<close> with \<open>c\<close> columns: the column \<open>idx[k]\<close> of every row
  of \<open>B\<close> receives the column \<open>k\<close> of \<open>V\<close>; where an index occurs twice the later column
  stays.
\<close>

fun assign_row :: "real list \<Rightarrow> (nat \<times> real) list \<Rightarrow> real list" where
  "assign_row row [] = row"
| "assign_row row ((j, v) # jvs) = assign_row (row[j := v]) jvs"

definition assign_columns ::
  "nat \<Rightarrow> real list list \<Rightarrow> int list \<Rightarrow> real list list \<Rightarrow> error + real list list" where
  "assign_columns c B idx V =
     (case sequence_error (map (np_index c) idx) of
        Inl e \<Rightarrow> Inl e
      | Inr js \<Rightarrow>
          (case broadcast_to (length B) (length idx) V of
             Inl e \<Rightarrow> Inl e
           | Inr V' \<Rightarrow> Inr (map2 (\<lambda>row vs. assign_row row (zip js vs)) B V')))"

subsection \<open>The imported estimators\<close>

text \<open>
  The estimated Markov model and its PCCA object come from pyemma. \<open>MSM.pcca\<close> stores the
  metastable distributions in the model, so the parameter \<open>pcca\<close> returns the model too.
  \<open>np.linalg.inv\<close> and the constructor of \<open>DiscreteOutputModel\<close>, whose file is not part
  of the source tree, are parameters as well.
\<close>

record MSM =
  msm_nstates :: nat
  active_set :: "int list"
  transition_matrix :: "real list list"
  metastable_distributions :: "real list list"

record PCCA =
  memberships :: "real list list"
  coarse_grained_stationary_probability :: "real list"

record ('obs, 'om) pyemma =
  estimate_markov_model :: "'obs \<Rightarrow> int \<Rightarrow> error + MSM"
  pcca :: "MSM \<Rightarrow> nat \<Rightarrow> error + PCCA \<times> MSM"
  np_linalg_inv :: "real list list \<Rightarrow> error + real list list"
  DiscreteOutputModel :: "npfloat list list \<Rightarrow> error + 'om"
  analysis :: "'om msmana"

subsection \<open>initial_model_discrete\<close>

text \<open>Line 56: \<open>eps = 0.01 * (1.0/MSM.nstates)\<close>.\<close>

definition default_eps :: "MSM \<Rightarrow> error + real" where
  "default_eps m =
     (if msm_nstates m = 0 then Inl ZeroDivisionError
      else Inr ((1 / 100) * (1 / real (msm_nstates m))))"

text \<open>Lines 57 to 59: the output matrix on the full state space, before it is renormalized.\<close>

definition expand_B :: "MSM \<Rightarrow> nat \<Rightarrow> real \<Rightarrow> error + real list list" where
  "expand_B m nstates eps =
     assign_columns (msm_nstates m) (replicate nstates (replicate (msm_nstates m) eps))
       (active_set m) (metastable_distributions m)"

text \<open>Lines 52 to 61.\<close>

definition output_matrix :: "MSM \<Rightarrow> nat \<Rightarrow> real \<Rightarrow> error + npfloat list list" where
  "output_matrix m nstates eps =
     (case expand_B m nstates eps of
        Inl e \<Rightarrow> Inl e
      | Inr B \<Rightarrow> Inr (divide_rows B))"

text \<open>Lines 64 to 74.\<close>

definition coarse_transition_matrix ::
  "(real list list \<Rightarrow> error + real list list) \<Rightarrow> MSM \<Rightarrow> PCCA \<Rightarrow> real \<Rightarrow> error + npfloat list list" where
  "coarse_transition_matrix linalg_inv m pc eps =
     (let M = memberships pc in
      case np_dot (transpose M) M of
        Inl e \<Rightarrow> Inl e
      | Inr MtM \<Rightarrow>
          (case linalg_inv MtM of
             Inl e \<Rightarrow> Inl e
           | Inr W \<Rightarrow>
               (case np_dot (transpose M) (transition_matrix m) of
                  Inl e \<Rightarrow> Inl e
                | Inr MtT \<Rightarrow>
                    (case np_dot MtT M of
                       Inl e \<Rightarrow> Inl e
                     | Inr A \<Rightarrow>
                         (case np_dot W A of
                            Inl e \<Rightarrow> Inl e
                          | Inr P_coarse \<Rightarrow>
                              (case np_dot (np_diag_matrix (coarse_grained_stationary_probability pc))
                                      P_coarse of
                                 Inl e \<Rightarrow> Inl e
                               | Inr X \<Rightarrow> Inr (divide_rows (np_maximum X eps))))))))"

text \<open>
  The function with \<open>verbose=False\<close>. A \<open>reversible=False\<close> only gives a warning. The last
  statement is \<open>HMM(nstates, A, output_model)\<close>: the arguments are bound in this order to
  the parameters \<open>Tij\<close>, \<open>output_model\<close> and \<open>lag\<close> of the constructor.
\<close>

definition initial_model_discrete ::
  "('obs, 'om) pyemma \<Rightarrow> 'obs \<Rightarrow> nat \<Rightarrow> int \<Rightarrow> bool \<Rightarrow> error + 'om HMM" where
  "initial_model_discrete env observations nstates lag reversible =
     (case estimate_markov_model env observations lag of
        Inl e \<Rightarrow> Inl e
      | Inr m0 \<Rightarrow>
          (case pcca env m0 nstates of
             Inl e \<Rightarrow> Inl e
           | Inr (pc, m) \<Rightarrow>
               (case default_eps m of
                  Inl e \<Rightarrow> Inl e
                | Inr eps \<Rightarrow>
                    (case output_matrix m nstates eps of
                       Inl e \<Rightarrow> Inl e
                     | Inr B \<Rightarrow>
                         (case coarse_transition_matrix (np_linalg_inv env) m pc eps of
                            Inl e \<Rightarrow> Inl e
                          | Inr A \<Rightarrow>
                              (case DiscreteOutputModel env B of
                                 Inl e \<Rightarrow> Inl e
                               | Inr om \<Rightarrow>
                                   HMM_init (analysis env) (PyInt (int nstates)) (PyArray A)
                                     (PyOutputModel om) None True True))))))"

section \<open>Example inputs\<close>

text \<open>
  The two-state model of the docstring of \<open>HMM\<close>, with analysis functions that answer
  for its transition matrix: stationary distribution \<open>(5/7, 2/7)\<close>, eigenvalues \<open>1\<close> and
  \<open>3/10\<close>. An array that is not two-dimensional is no transition matrix.
\<close>

definition example_T :: "npfloat list list" where
  "example_T = [[Fin (8 / 10), Fin (2 / 10)], [Fin (5 / 10), Fin (5 / 10)]]"

definition example_analysis :: "'om msmana" where
  "example_analysis =
     \<lparr>is_transition_matrix = (\<lambda>a. case a of Arr0 x \<Rightarrow> Inr False | Arr2 m \<Rightarrow> Inr True),
      msm_stationary_distribution = (\<lambda>T. Inr [Fin (5 / 7), Fin (2 / 7)]),
      is_reversible = (\<lambda>T. Inr True),
      rdl_decomposition =
        (\<lambda>T n. Inr ([[1, 2], [1, - 5]], [[1, 0], [0, 3 / 10]], [[5 / 7, 2 / 7], [1 / 7, - 1 / 7]]))\<rparr>"

definition example_hmm :: "unit HMM" where
  "example_hmm =
     \<lparr>h_Tij = example_T, h_nstates = 2, h_lag = PyInt 1, output_model = PyOutputModel (),
      hidden_state_trajectories = None,
      h_Pi = [Fin (5 / 7), Fin (2 / 7)], h_stationary = True, h_reversible = True,
      h_R = [[1, 2], [1, - 5]], h_D = [[1, 0], [0, 3 / 10]],
      h_L = [[5 / 7, 2 / 7], [1 / 7, - 1 / 7]], h_eigenvalues = [1, 3 / 10]\<rparr>"

text \<open>
  The cyclic walk on four states, which is not reversible: its eigenvalues are the fourth
  roots of unity.
\<close>

definition cycle_T :: "npfloat list list" where
  "cycle_T =
     [[Fin 0, Fin 1, Fin 0, Fin 0], [Fin 0, Fin 0, Fin 1, Fin 0],
      [Fin 0, Fin 0, Fin 0, Fin 1], [Fin 1, Fin 0, Fin 0, Fin 0]]"

definition cycle_analysis :: "'om msmana" where
  "cycle_analysis =
     \<lparr>is_transition_matrix = (\<lambda>a. case a of Arr0 x \<Rightarrow> Inr False | Arr2 m \<Rightarrow> Inr True),
      msm_stationary_distribution = (\<lambda>T. Inr [Fin (1 / 4), Fin (1 / 4), Fin (1 / 4), Fin (1 / 4)]),
      is_reversible = (\<lambda>T. Inr False),
      rdl_decomposition =
        (\<lambda>T n. Inr ([[1, 1, 1, 1], [1, \<i>, - 1, - \<i>], [1, - 1, 1, - 1], [1, - \<i>, - 1, \<i>]],
                     [[1, 0, 0, 0], [0, \<i>, 0, 0], [0, 0, - 1, 0], [0, 0, 0, - \<i>]],
                     [[1 / 4, 1 / 4, 1 / 4, 1 / 4], [1 / 4, - \<i> / 4, - 1 / 4, \<i> / 4],
                      [1 / 4, - 1 / 4, 1 / 4, - 1 / 4], [1 / 4, \<i> / 4, - 1 / 4, - \<i> / 4]]))\<rparr>"

text \<open>A random source that counts its draws and always yields state \<open>0\<close>.\<close>

definition counting_choice :: "nat \<Rightarrow> nat \<Rightarrow> npfloat list \<Rightarrow> (error + int) \<times> nat" where
  "counting_choice rng n p = (Inr 0, Suc rng)"

text \<open>
  A fine model on three symbols of which the first and the last are connected and are
  their own metastable sets, with the estimators answering for it; the inverse is given
  for the identity matrix only.
\<close>

definition example_msm :: MSM where
  "example_msm =
     \<lparr>msm_nstates = 3, active_set = [0, 2],
      transition_matrix = [[9 / 10, 1 / 10], [1 / 10, 9 / 10]],
      metastable_distributions = [[1, 0], [0, 1]]\<rparr>"

definition example_pcca :: PCCA where
  "example_pcca =
     \<lparr>memberships = [[1, 0], [0, 1]], coarse_grained_stationary_probability = [1 / 2, 1 / 2]\<rparr>"

definition example_inv :: "real list list \<Rightarrow> error + real list list" where
  "example_inv m =
     (if m = [[1, 0], [0, 1]] then Inr m else Inl (ExternalError ''Singular matrix''))"

definition example_pyemma :: "(int list list, npfloat list list) pyemma" where
  "example_pyemma =
     \<lparr>estimate_markov_model = (\<lambda>obs lag. Inr example_msm),
      pcca = (\<lambda>m n. Inr (example_pcca, m)),
      np_linalg_inv = example_inv,
      DiscreteOutputModel = (\<lambda>B. Inr B),
      analysis = example_analysis\<rparr>"

section \<open>Predicates of the statements\<close>

text \<open>A state index of a model with \<open>n\<close> hidden states.\<close>

definition valid_state :: "nat \<Rightarrow> int \<Rightarrow> bool" where
  "valid_state n s = (0 \<le> s \<and> s < int n)"

text \<open>Entries of an array after a division: finite and positive, and rows that sum to one.\<close>

fun fin_value :: "npfloat \<Rightarrow> real" where
  "fin_value (Fin x) = x"
| "fin_value x = 0"

fun is_finite :: "npfloat \<Rightarrow> bool" where
  "is_finite (Fin x) = True"
| "is_finite x = False"

definition positive_entry :: "npfloat \<Rightarrow> bool" where
  "positive_entry x = (is_finite x \<and> 0 < fin_value x)"

definition row_sums_to_one :: "npfloat list \<Rightarrow> bool" where
  "row_sums_to_one row = (list_all is_finite row \<and> sum_list (map fin_value row) = 1)"

text \<open>
  A random source that yields state \<open>0\<close> and refuses probabilities that do not sum to
  one, as \<open>np.random.choice\<close> does.
\<close>

definition checking_choice :: "nat \<Rightarrow> nat \<Rightarrow> npfloat list \<Rightarrow> (error + int) \<times> nat" where
  "checking_choice rng n p =
     (if row_sums_to_one p then (Inr 0, Suc rng)
      else (Inl (ValueError ''probabilities do not sum to 1''), rng))"

section \<open>Failures of the counting loops\<close>

lemma count_incr_error: "count_incr n C a b = Inl e \<Longrightarrow> e = IndexError"
  by (auto simp: count_incr_def np_index_def Let_def split: sum.splits if_splits)

lemma count_trajectory_error: "count_trajectory n C S = Inl e \<Longrightarrow> e = IndexError"
proof (induction n C S rule: count_trajectory.induct)
  case (1 n C a b S)
  then show ?case by (auto split: sum.splits dest: count_incr_error)
qed simp_all

lemma count_trajectories_error: "count_trajectories n C Ss = Inl e \<Longrightarrow> e = IndexError"
proof (induction Ss arbitrary: C)
  case (Cons S Ss)
  then show ?case by (auto split: sum.splits dest: count_trajectory_error)
qed simp

lemma count_incr_valid:
  "valid_state n a \<Longrightarrow> valid_state n b \<Longrightarrow> \<exists>C'. count_incr n C a b = Inr C'"
  by (simp add: count_incr_def np_index_def valid_state_def Let_def)

lemma count_trajectory_valid:
  "list_all (valid_state n) S \<Longrightarrow> \<exists>C'. count_trajectory n C S = Inr C'"
proof (induction n C S rule: count_trajectory.induct)
  case (1 n C a b S)
  then obtain C' where "count_incr n C a b = Inr C'"
    using count_incr_valid [of n a b C] by auto
  with 1 show ?case by simp
qed simp_all

lemma count_trajectories_valid:
  "list_all (list_all (valid_state n)) Ss \<Longrightarrow> \<exists>C'. count_trajectories n C Ss = Inr C'"
proof (induction Ss arbitrary: C)
  case (Cons S Ss)
  then obtain C' where "count_trajectory n C S = Inr C'"
    using count_trajectory_valid [of n S C] by auto
  with Cons show ?case by simp
qed simp

section \<open>The count matrix\<close>

text \<open>
  C2, as the code computes it: on a model with two hidden states whose trajectories are
  \<open>[[0,1,0],[1,1,0]]\<close>, \<open>count_matrix\<close> returns \<open>[[0,1],[2,1]]\<close>. The transitions are
  \<open>0\<rightarrow>1\<close>, \<open>1\<rightarrow>0\<close>, \<open>1\<rightarrow>1\<close> and \<open>1\<rightarrow>0\<close>: none from \<open>0\<close> to \<open>0\<close>, two from \<open>1\<close> to \<open>0\<close>.
\<close>

theorem count_matrix_two_sequences:
  "count_matrix (h\<lparr>h_nstates := 2, hidden_state_trajectories := Some [[0, 1, 0], [1, 1, 0]]\<rparr>)
     = Inr [[0, 1], [2, 1]]"
  by (simp add: count_matrix_def np_zeros2_def count_incr_def np_index_def numeral_2_eq_2)

text \<open>
  C2, as the spec states it, fails: on the two-state example model with these trajectories
  the count matrix is not \<open>[[1,1],[1,1]]\<close>.
\<close>

theorem count_matrix_two_sequences_not_all_ones:
  "count_matrix (example_hmm\<lparr>hidden_state_trajectories := Some [[0, 1, 0], [1, 1, 0]]\<rparr>)
     \<noteq> Inr [[1, 1], [1, 1]]"
  by (simp add: count_matrix_def example_hmm_def np_zeros2_def count_incr_def np_index_def
      numeral_2_eq_2)

text \<open>
  C10: \<open>count_matrix\<close> raises its \<open>RuntimeError\<close> exactly when no trajectories were assigned;
  an assigned empty list gives the zero matrix of size \<open>nstates \<times> nstates\<close>; and on
  assigned trajectories whose entries are state indices it does not fail at all.
\<close>

theorem count_matrix_fails_iff_absent:
  "(count_matrix h = Inl (RuntimeError ''HMM model does not have a hidden state trajectory.'')
      \<longleftrightarrow> hidden_state_trajectories h = None) \<and>
   (hidden_state_trajectories h = Some [] \<longrightarrow>
      count_matrix h = Inr (replicate (h_nstates h) (replicate (h_nstates h) 0))) \<and>
   (\<forall>Ss. hidden_state_trajectories h = Some Ss \<and>
         list_all (list_all (valid_state (h_nstates h))) Ss \<longrightarrow> \<not> isl (count_matrix h))"
proof (intro conjI allI impI)
  show "(count_matrix h = Inl (RuntimeError ''HMM model does not have a hidden state trajectory.''))
      = (hidden_state_trajectories h = None)"
    by (auto simp: count_matrix_def split: option.splits dest: count_trajectories_error)
next
  assume "hidden_state_trajectories h = Some []"
  then show "count_matrix h = Inr (replicate (h_nstates h) (replicate (h_nstates h) 0))"
    by (simp add: count_matrix_def np_zeros2_def)
next
  fix Ss
  assume "hidden_state_trajectories h = Some Ss \<and>
    list_all (list_all (valid_state (h_nstates h))) Ss"
  then obtain C where "count_trajectories (h_nstates h) (np_zeros2 (h_nstates h) (h_nstates h)) Ss = Inr C"
    using count_trajectories_valid [of "h_nstates h" Ss "np_zeros2 (h_nstates h) (h_nstates h)"]
    by auto
  with \<open>hidden_state_trajectories h = Some Ss \<and> _\<close> show "\<not> isl (count_matrix h)"
    by (simp add: count_matrix_def)
qed

theorem count_matrix_fails_iff_absent_witness:
  "count_matrix example_hmm
     = Inl (RuntimeError ''HMM model does not have a hidden state trajectory.'') \<and>
   count_matrix (example_hmm\<lparr>hidden_state_trajectories := Some []\<rparr>) = Inr [[0, 0], [0, 0]] \<and>
   list_all (list_all (valid_state 2)) [[0, 1, 0], [1, 1, 0]] \<and>
   \<not> isl (count_matrix (example_hmm\<lparr>hidden_state_trajectories := Some [[0, 1, 0], [1, 1, 0]]\<rparr>))"
  using count_matrix_fails_iff_absent [of example_hmm]
    count_matrix_fails_iff_absent [of "example_hmm\<lparr>hidden_state_trajectories := Some []\<rparr>"]
    count_matrix_fails_iff_absent
      [of "example_hmm\<lparr>hidden_state_trajectories := Some [[0, 1, 0], [1, 1, 0]]\<rparr>"]
  by (simp add: example_hmm_def valid_state_def numeral_2_eq_2)

section \<open>The stationary distribution of a model\<close>

text \<open>
  C7: on a stationary model \<open>stationary_distribution\<close> returns the initial distribution of
  the model; on a model that is not stationary it raises \<open>ValueError\<close> and returns no vector.
\<close>

theorem stationary_distribution_contract:
  "stationary_distribution (h\<lparr>h_stationary := True\<rparr>) = Inr (initial_distribution h) \<and>
   stationary_distribution (h\<lparr>h_stationary := False\<rparr>) = Inl (ValueError ''HMM is not stationary'')"
  by (simp add: stationary_distribution_def initial_distribution_def)

section \<open>The constructor of HMM\<close>

lemma HMM_init_array:
  "is_transition_matrix ext (Arr2 T) = Inr True \<Longrightarrow>
   HMM_init ext (PyArray T) om lag Pi st rv =
     (case normalize_Pi Pi of
        Inl e \<Rightarrow> Inl e
      | Inr Pi' \<Rightarrow>
          (case select_Pi ext T Pi' st of
             Inl e \<Rightarrow> Inl e
           | Inr p \<Rightarrow>
               (case check_reversible ext T rv of
                  Inl e \<Rightarrow> Inl e
                | Inr u \<Rightarrow>
                    (case decompose ext T rv of
                       Inl e \<Rightarrow> Inl e
                     | Inr (R, D, L) \<Rightarrow>
                         Inr \<lparr>h_Tij = T, h_nstates = length T, h_lag = lag,
                              output_model = om,
                              hidden_state_trajectories = None,
                              h_Pi = p, h_stationary = st,
                              h_reversible = rv,
                              h_R = R, h_D = D, h_L = L,
                              h_eigenvalues = np_diag D\<rparr>))))"
  by (simp add: HMM_init_def)

lemma HMM_init_not_array:
  "np_array Tij = Arr0 x \<Longrightarrow> isl (HMM_init ext Tij om lag Pi st rv)"
  by (simp add: HMM_init_def split: sum.splits)

lemma HMM_init_InrD:
  assumes "HMM_init ext Tij om lag Pi st rv = Inr h"
  shows "\<exists>T Pi' R D L. Tij = PyArray T \<and> is_transition_matrix ext (Arr2 T) = Inr True \<and>
     normalize_Pi Pi = Inr Pi' \<and> select_Pi ext T Pi' st = Inr (h_Pi h) \<and>
     check_reversible ext T rv = Inr () \<and> decompose ext T rv = Inr (R, D, L) \<and>
     h = \<lparr>h_Tij = T, h_nstates = length T, h_lag = lag, output_model = om,
          hidden_state_trajectories = None, h_Pi = h_Pi h, h_stationary = st,
          h_reversible = rv, h_R = R, h_D = D, h_L = L, h_eigenvalues = np_diag D\<rparr>"
proof (cases Tij)
  case (PyArray T)
  with assms show ?thesis
    by (auto simp: HMM_init_def split: sum.splits if_splits prod.splits)
qed (use assms HMM_init_not_array [of Tij _ ext om lag Pi st rv] in auto)

text \<open>
  C9: a model constructed with \<open>stationary=False\<close> and without \<open>Pi\<close> is no error. When the
  matrix is accepted as a transition matrix, its stationary distribution is computed and
  the reversibility check and the decomposition go through, the constructor returns the
  model, and the initial distribution of the model is the stationary distribution of the
  transition matrix.
\<close>

theorem free_model_without_Pi:
  assumes "is_transition_matrix ext (Arr2 T) = Inr True"
    and "msm_stationary_distribution ext T = Inr pT"
    and "check_reversible ext T rv = Inr ()"
    and "decompose ext T rv = Inr (R, D, L)"
  shows "HMM_init ext (PyArray T) om lag None False rv =
     Inr \<lparr>h_Tij = T, h_nstates = length T, h_lag = lag, output_model = om,
          hidden_state_trajectories = None, h_Pi = pT, h_stationary = False,
          h_reversible = rv, h_R = R, h_D = D, h_L = L, h_eigenvalues = np_diag D\<rparr>"
  using assms by (simp add: HMM_init_array normalize_Pi_def select_Pi_def)

text \<open>
  C6: for a matrix accepted as a transition matrix with stationary distribution \<open>pT\<close>, and
  \<open>stationary=True\<close>: without \<open>Pi\<close> a constructed model has \<open>pT\<close> as its initial
  distribution; with a given \<open>Pi\<close> the construction fails unless \<open>Pi\<close> has no negative
  entry and \<open>Pi\<close> divided by its sum is close to \<open>pT\<close> in the sense of \<open>np.allclose\<close> (a
  vector that is not close fails the assertion on the stationary distribution), and a
  constructed model has that renormalized vector as its initial distribution. In both
  cases the construction succeeds when the remaining steps of the constructor, the
  reversibility check and the decomposition, go through.
\<close>

theorem stationary_model_Pi:
  assumes "is_transition_matrix ext (Arr2 T) = Inr True"
    and "msm_stationary_distribution ext T = Inr pT"
  shows "(\<forall>h. HMM_init ext (PyArray T) om lag None True rv = Inr h \<longrightarrow> h_Pi h = pT) \<and>
    (\<forall>p. \<not> (list_all (\<lambda>x. 0 \<le> x) p \<and>
              np_allclose (map (\<lambda>x. np_true_divide x (sum_list p)) p) pT = Inr True) \<longrightarrow>
         isl (HMM_init ext (PyArray T) om lag (Some p) True rv)) \<and>
    (\<forall>p. list_all (\<lambda>x. 0 \<le> x) p \<and>
              np_allclose (map (\<lambda>x. np_true_divide x (sum_list p)) p) pT = Inr False \<longrightarrow>
         HMM_init ext (PyArray T) om lag (Some p) True rv = Inl (AssertionError
           ''Stationary HMM requested, but given distribution is not the stationary distribution of the given transition matrix.'')) \<and>
    (\<forall>p h. HMM_init ext (PyArray T) om lag (Some p) True rv = Inr h \<longrightarrow>
         h_Pi h = map (\<lambda>x. np_true_divide x (sum_list p)) p) \<and>
    (check_reversible ext T rv = Inr () \<and> \<not> isl (decompose ext T rv) \<longrightarrow>
       \<not> isl (HMM_init ext (PyArray T) om lag None True rv) \<and>
       (\<forall>p. list_all (\<lambda>x. 0 \<le> x) p \<and>
              np_allclose (map (\<lambda>x. np_true_divide x (sum_list p)) p) pT = Inr True \<longrightarrow>
         \<not> isl (HMM_init ext (PyArray T) om lag (Some p) True rv)))"
  using assms
  by (auto simp: HMM_init_array normalize_Pi_def select_Pi_def split: sum.splits if_splits prod.splits)

lemma example_decompose:
  "decompose example_analysis example_T True =
     Inr ([[1, 2], [1, - 5]], [[1, 0], [0, 3 / 10]], [[5 / 7, 2 / 7], [1 / 7, - 1 / 7]])"
  by (simp add: decompose_def example_analysis_def np_real_def)

theorem free_model_without_Pi_witness:
  "is_transition_matrix example_analysis (Arr2 example_T :: unit ndarray) = Inr True \<and>
   msm_stationary_distribution (example_analysis :: unit msmana) example_T
     = Inr [Fin (5 / 7), Fin (2 / 7)] \<and>
   check_reversible (example_analysis :: unit msmana) example_T True = Inr () \<and>
   HMM_init example_analysis (PyArray example_T) (PyOutputModel ()) (PyInt 1) None False True
     = Inr (example_hmm\<lparr>h_stationary := False\<rparr>)"
  using free_model_without_Pi [of "example_analysis :: unit msmana" example_T
      "[Fin (5 / 7), Fin (2 / 7)]" True "[[1, 2], [1, - 5]]" "[[1, 0], [0, 3 / 10]]"
      "[[5 / 7, 2 / 7], [1 / 7, - 1 / 7]]" "PyOutputModel ()" "PyInt 1"]
    example_decompose
  by (simp add: example_analysis_def check_reversible_def example_hmm_def example_T_def
      np_diag_def ncols_def numeral_2_eq_2)

theorem stationary_model_Pi_witness:
  "is_transition_matrix example_analysis (Arr2 example_T :: unit ndarray) = Inr True \<and>
   msm_stationary_distribution (example_analysis :: unit msmana) example_T
     = Inr [Fin (5 / 7), Fin (2 / 7)] \<and>
   HMM_init example_analysis (PyArray example_T) (PyOutputModel ()) (PyInt 1) None True True
     = Inr example_hmm \<and>
   HMM_init example_analysis (PyArray example_T) (PyOutputModel ()) (PyInt 1)
          (Some [1 / 2, 1 / 2]) True True = Inl (AssertionError
     ''Stationary HMM requested, but given distribution is not the stationary distribution of the given transition matrix.'') \<and>
   HMM_init example_analysis (PyArray example_T) (PyOutputModel ()) (PyInt 1)
          (Some [5, 2]) True True = Inr example_hmm"
  using stationary_model_Pi [of "example_analysis :: unit msmana" example_T
      "[Fin (5 / 7), Fin (2 / 7)]" "PyOutputModel ()" "PyInt 1" True]
    example_decompose
  by (simp add: HMM_init_def example_analysis_def select_Pi_def normalize_Pi_def
      np_allclose_def np_true_divide_def check_reversible_def decompose_def np_real_def
      example_hmm_def example_T_def np_diag_def ncols_def numeral_2_eq_2)

lemma np_real_Im: "list_all (list_all (\<lambda>z. Im z = 0)) (np_real m)"
  by (simp add: np_real_def list_all_iff)

section \<open>The decomposition stored at construction\<close>

text \<open>
  C4, as the code has it: a model constructed with \<open>reversible=False\<close> stores the
  decomposition with norm \<open>standard\<close> as the analysis returns it, complex entries included;
  a model constructed with \<open>reversible=True\<close> stores the real parts of the decomposition
  with norm \<open>reversible\<close>, so that every stored entry has imaginary part zero. The
  eigenvalues are the diagonal of the stored matrix \<open>D\<close>.
\<close>

theorem decomposition_stored:
  assumes "HMM_init ext Tij om lag Pi st rv = Inr h"
  shows "h_eigenvalues h = np_diag (h_D h) \<and>
    (\<not> rv \<longrightarrow> rdl_decomposition ext (h_Tij h) Standard = Inr (h_R h, h_D h, h_L h)) \<and>
    (rv \<longrightarrow> (\<exists>R D L. rdl_decomposition ext (h_Tij h) Reversible = Inr (R, D, L) \<and>
                 h_R h = np_real R \<and> h_D h = np_real D \<and> h_L h = np_real L) \<and>
            list_all (list_all (\<lambda>z. Im z = 0)) (h_R h) \<and>
            list_all (list_all (\<lambda>z. Im z = 0)) (h_D h) \<and>
            list_all (list_all (\<lambda>z. Im z = 0)) (h_L h))"
proof -
  from HMM_init_InrD [OF assms] obtain T R D L where
    d: "decompose ext T rv = Inr (R, D, L)" and
    h: "h_Tij h = T" "h_R h = R" "h_D h = D" "h_L h = L" "h_eigenvalues h = np_diag D"
    by (metis HMM.select_convs(1,9,10,11,12))
  show ?thesis
  proof (cases rv)
    case True
    with d obtain R' D' L' where "rdl_decomposition ext T Reversible = Inr (R', D', L')"
      and "R = np_real R'" "D = np_real D'" "L = np_real L'"
      by (auto simp: decompose_def split: sum.splits)
    with True h show ?thesis by (simp add: np_real_Im)
  next
    case False
    with d h show ?thesis by (simp add: decompose_def)
  qed
qed

theorem decomposition_stored_witness:
  "HMM_init example_analysis (PyArray example_T) (PyOutputModel ()) (PyInt 1) None True True
     = Inr example_hmm \<and>
   h_D example_hmm = np_real [[1, 0], [0, 3 / 10]] \<and>
   list_all (list_all (\<lambda>z. Im z = 0)) (h_D example_hmm) \<and>
   h_eigenvalues example_hmm = np_diag (h_D example_hmm)"
  using decomposition_stored [of "example_analysis :: unit msmana" "PyArray example_T"
      "PyOutputModel ()" "PyInt 1" None True True example_hmm]
  by (simp add: HMM_init_def example_analysis_def select_Pi_def normalize_Pi_def
      check_reversible_def decompose_def np_real_def
      example_hmm_def example_T_def np_diag_def ncols_def numeral_2_eq_2)

text \<open>
  C4, as the spec states it, fails: the model of the cyclic walk on four states, constructed
  with \<open>reversible=False\<close>, keeps the eigenvalues \<open>\<i>\<close> and \<open>-\<i>\<close>; their imaginary parts are
  not discarded.
\<close>

theorem nonreversible_eigenvalues_complex:
  "map_sum id (\<lambda>h. map Im (h_eigenvalues h))
     (HMM_init cycle_analysis (PyArray cycle_T) (PyOutputModel ()) (PyInt 1) None True False)
   = Inr [0, 1, 0, - 1]"
  by (simp add: HMM_init_def cycle_analysis_def select_Pi_def normalize_Pi_def
      check_reversible_def decompose_def cycle_T_def np_diag_def ncols_def
      upt_rec [of 0 "numeral n" for n] upt_rec [of "Suc 0"] upt_rec [of 2] upt_rec [of 3]  numeral_eq_Suc)

section \<open>Relaxation timescales\<close>

lemma timescale_finite:
  assumes "0 < cmod l" and "cmod l \<noteq> 1"
  shows "timescale tau l = Fin (- tau / ln (cmod l))"
  using assms by (simp add: timescale_def)

lemma timescale_infinite:
  assumes "cmod l = 1"
  shows "timescale tau l = PInf"
  using assms by (simp add: timescale_def)

text \<open>
  C8: for a constructed model whose matrix \<open>D\<close> of eigenvalues is square of size \<open>nstates\<close>
  and whose lag time is a number \<open>tau\<close>, \<open>timescales\<close> returns \<open>nstates - 1\<close> values, the
  relaxation times of the eigenvalues but the first. The relaxation time of an eigenvalue
  \<open>\<lambda>\<close> with \<open>0 < \<bar>\<lambda>\<bar>\<close> and \<open>\<bar>\<lambda>\<bar> \<noteq> 1\<close> is the finite number \<open>- tau / ln \<bar>\<lambda>\<bar>\<close>; it is zero
  for \<open>\<lambda> = 0\<close>, and infinite for \<open>\<bar>\<lambda>\<bar> = 1\<close>.
\<close>

theorem timescales_subdominant:
  assumes "HMM_init ext Tij om lag Pi st rv = Inr h"
    and "length (h_D h) = h_nstates h" and "ncols (h_D h) = h_nstates h"
    and "lag = PyInt k \<and> tau = real_of_int k \<or> lag = PyFloat tau"
  shows "timescales h = Inr (map (timescale tau) (tl (h_eigenvalues h))) \<and>
    length (map (timescale tau) (tl (h_eigenvalues h))) = h_nstates h - 1 \<and>
    (\<forall>l. 0 < cmod l \<and> cmod l \<noteq> 1 \<longrightarrow> timescale tau l = Fin (- tau / ln (cmod l))) \<and>
    (\<forall>l. cmod l = 0 \<longrightarrow> timescale tau l = Fin 0) \<and>
    (\<forall>l. cmod l = 1 \<longrightarrow> timescale tau l = PInf)"
proof -
  from HMM_init_InrD [OF assms(1)] have "h_lag h = lag" "h_eigenvalues h = np_diag (h_D h)"
    by (metis HMM.select_convs(3), metis HMM.select_convs(10,12))
  with assms(2-4)
  have "timescales h = Inr (map (timescale tau) (tl (h_eigenvalues h))) \<and>
    length (map (timescale tau) (tl (h_eigenvalues h))) = h_nstates h - 1"
    by (auto simp: timescales_def timescales_from_eigenvalues_def np_diag_def map_tl)
  moreover have "\<forall>l. cmod l = 0 \<longrightarrow> timescale tau l = Fin 0"
    by (simp add: timescale_def)
  ultimately show ?thesis
    using timescale_finite [of _ tau] timescale_infinite [of _ tau] by blast
qed

theorem timescales_subdominant_witness:
  "HMM_init example_analysis (PyArray example_T) (PyOutputModel ()) (PyInt 1) None True True
     = Inr example_hmm \<and>
   length (h_D example_hmm) = h_nstates example_hmm \<and>
   ncols (h_D example_hmm) = h_nstates example_hmm \<and>
   (0::real) < cmod (3 / 10) \<and> cmod (3 / 10) \<noteq> 1 \<and>
   timescales example_hmm = Inr [Fin (- 1 / ln (3 / 10))] \<and>
   cmod \<i> = 1 \<and> timescale 1 \<i> = PInf"
  using timescales_subdominant [of "example_analysis :: unit msmana" "PyArray example_T"
      "PyOutputModel ()" "PyInt 1" None True True example_hmm 1 1]
  by (simp add: HMM_init_def example_analysis_def select_Pi_def normalize_Pi_def
      check_reversible_def decompose_def np_real_def
      example_hmm_def example_T_def np_diag_def ncols_def numeral_2_eq_2)

text \<open>
  On the cyclic walk on four states every eigenvalue has modulus one, and the three
  relaxation times are infinite.
\<close>

lemma timescales_cycle:
  "(case HMM_init cycle_analysis (PyArray cycle_T) (PyOutputModel ()) (PyInt 1) None True False of
      Inl e \<Rightarrow> Inl e | Inr h \<Rightarrow> timescales h) = Inr [PInf, PInf, PInf]"
  by (simp add: HMM_init_def cycle_analysis_def select_Pi_def normalize_Pi_def
      check_reversible_def decompose_def cycle_T_def np_diag_def ncols_def
      timescales_def timescales_from_eigenvalues_def timescale_def np_true_divide_def
      upt_rec [of 0 "numeral n" for n] upt_rec [of "Suc 0"] upt_rec [of 2] upt_rec [of 3]
      numeral_eq_Suc)

section \<open>The matrices of the discrete initial model\<close>

lemma default_eps_pos: "default_eps m = Inr eps \<Longrightarrow> 0 < eps"
  by (auto simp: default_eps_def split: if_splits)

lemma sum_list_divide_const: "sum_list (map (\<lambda>x. x / s) xs) = sum_list xs / (s::real)"
  by (induction xs) (simp_all add: add_divide_distrib)

lemma sum_list_pos_nonempty: "xs \<noteq> [] \<Longrightarrow> \<forall>x\<in>set xs. 0 < (x::real) \<Longrightarrow> 0 < sum_list xs"
  by (induction xs) (auto simp: add_pos_nonneg sum_list_nonneg less_imp_le)

lemma divide_row_finite:
  assumes "s \<noteq> 0"
  shows "map (\<lambda>x. np_true_divide x s) row = map (\<lambda>x. Fin (x / s)) row"
  using assms by (simp add: np_true_divide_def)

lemma divide_row_sums_to_one:
  assumes "sum_list row \<noteq> 0"
  shows "row_sums_to_one (map (\<lambda>x. np_true_divide x (sum_list row)) row)"
  using assms
  by (simp add: divide_row_finite row_sums_to_one_def list_all_iff comp_def sum_list_divide_const)

lemma divide_row_positive:
  assumes "row \<noteq> []" and "\<forall>x\<in>set row. 0 < x"
  shows "list_all positive_entry (map (\<lambda>x. np_true_divide x (sum_list row)) row) \<and>
         row_sums_to_one (map (\<lambda>x. np_true_divide x (sum_list row)) row)"
proof -
  have s: "0 < sum_list row" using assms by (rule sum_list_pos_nonempty)
  then have "list_all positive_entry (map (\<lambda>x. np_true_divide x (sum_list row)) row)"
    using assms(2) by (simp add: divide_row_finite list_all_iff positive_entry_def)
  moreover have "row_sums_to_one (map (\<lambda>x. np_true_divide x (sum_list row)) row)"
    using s by (intro divide_row_sums_to_one) simp
  ultimately show ?thesis by simp
qed

lemma divide_rows_maximum:
  assumes "0 < eps"
  shows "list_all (\<lambda>row. row \<noteq> [] \<longrightarrow> list_all positive_entry row \<and> row_sums_to_one row)
           (divide_rows (np_maximum X eps))"
proof -
  have "row \<noteq> [] \<longrightarrow>
      list_all positive_entry (map (\<lambda>x. np_true_divide x (sum_list (map (\<lambda>x. max x eps) row)))
        (map (\<lambda>x. max x eps) row)) \<and>
      row_sums_to_one (map (\<lambda>x. np_true_divide x (sum_list (map (\<lambda>x. max x eps) row)))
        (map (\<lambda>x. max x eps) row))" for row
    using divide_row_positive [of "map (\<lambda>x. max x eps) row"] assms
    by (auto simp: less_max_iff_disj)
  then show ?thesis
    by (simp add: divide_rows_def np_maximum_def list_all_iff)
qed

lemma coarse_transition_matrix_rows:
  assumes "coarse_transition_matrix linv m pc eps = Inr A" and "0 < eps"
  shows "list_all (\<lambda>row. row \<noteq> [] \<longrightarrow> list_all positive_entry row \<and> row_sums_to_one row) A"
proof -
  from assms(1) obtain X where "A = divide_rows (np_maximum X eps)"
    by (auto simp: coarse_transition_matrix_def Let_def split: sum.splits)
  with assms(2) show ?thesis by (simp add: divide_rows_maximum)
qed

lemma sequence_error_Inr:
  "sequence_error xs = Inr ys \<Longrightarrow> xs = map Inr ys"
  by (induction xs arbitrary: ys) (auto split: sum.splits)

lemma broadcast_axis_length: "broadcast_axis n xs = Inr ys \<Longrightarrow> length ys = n"
  by (auto simp: broadcast_axis_def split: if_splits)

lemma broadcast_axis_subset: "broadcast_axis n xs = Inr ys \<Longrightarrow> set ys \<subseteq> set xs"
  by (cases xs) (auto simp: broadcast_axis_def split: if_splits)

lemma sequence_error_all:
  "sequence_error (map f xs) = Inr ys \<Longrightarrow> \<forall>y\<in>set ys. \<exists>x\<in>set xs. f x = Inr y"
  by (induction xs arbitrary: ys) (auto split: sum.splits)

lemma broadcast_to_shape:
  assumes "broadcast_to r c m = Inr m'"
  shows "length m' = r \<and> (\<forall>row\<in>set m'. length row = c)"
proof -
  from assms obtain m1 where s: "sequence_error (map (broadcast_axis c) m) = Inr m1"
    and b: "broadcast_axis r m1 = Inr m'"
    by (auto simp: broadcast_to_def split: sum.splits)
  from sequence_error_all [OF s] have "\<forall>row\<in>set m1. length row = c"
    by (auto dest: broadcast_axis_length)
  with broadcast_axis_subset [OF b] broadcast_axis_length [OF b] show ?thesis by auto
qed

lemma assign_row_other:
  "j \<notin> fst ` set jvs \<Longrightarrow> assign_row row jvs ! j = row ! j"
  by (induction row jvs rule: assign_row.induct) auto

lemma assign_row_length: "length (assign_row row jvs) = length row"
  by (induction row jvs rule: assign_row.induct) auto

lemma expand_B_unconnected:
  assumes "expand_B m nstates eps = Inr B" and "i < nstates" and "j < msm_nstates m"
    and "Inr j \<notin> set (map (np_index (msm_nstates m)) (active_set m))"
  shows "B ! i ! j = eps"
proof -
  let ?B0 = "replicate nstates (replicate (msm_nstates m) eps)"
  from assms(1) obtain js V where
    js: "sequence_error (map (np_index (msm_nstates m)) (active_set m)) = Inr js" and
    V: "broadcast_to nstates (length (active_set m)) (metastable_distributions m) = Inr V" and
    B: "B = map2 (\<lambda>row vs. assign_row row (zip js vs)) ?B0 V"
    by (auto simp: expand_B_def assign_columns_def split: sum.splits)
  from sequence_error_Inr [OF js] assms(4) have "j \<notin> set js" by auto
  then have nj: "j \<notin> fst ` set (zip js vs)" for vs by (auto dest: set_zip_leftD)
  from broadcast_to_shape [OF V] have "length V = nstates" by simp
  with assms(2) B have "B ! i = assign_row (replicate (msm_nstates m) eps) (zip js (V ! i))"
    by simp
  moreover have "assign_row (replicate (msm_nstates m) eps) (zip js (V ! i)) ! j
      = replicate (msm_nstates m) eps ! j"
    using nj by (rule assign_row_other)
  ultimately show ?thesis using assms(3) by simp
qed

lemma output_matrix_rows:
  assumes "expand_B m nstates eps = Inr B0" and "output_matrix m nstates eps = Inr B"
    and "i < length B0" and "sum_list (B0 ! i) \<noteq> 0"
  shows "row_sums_to_one (B ! i)"
proof -
  from assms(1,2) have "B = divide_rows B0" by (simp add: output_matrix_def)
  with assms(3) have "B ! i = map (\<lambda>x. np_true_divide x (sum_list (B0 ! i))) (B0 ! i)"
    by (simp add: divide_rows_def)
  with assms(4) show ?thesis by (simp add: divide_row_sums_to_one)
qed

lemma example_eps: "default_eps example_msm = Inr (1 / 300)"
  by (simp add: default_eps_def example_msm_def)

lemma example_expand_B:
  "expand_B example_msm 2 (1 / 300) = Inr [[1, 1 / 300, 0], [0, 1 / 300, 1]]"
  by (simp add: expand_B_def example_msm_def assign_columns_def ncols_def np_index_def
      broadcast_to_def broadcast_axis_def numeral_2_eq_2 numeral_3_eq_3)

lemma example_output_matrix:
  "output_matrix example_msm 2 (1 / 300) =
     Inr [[Fin (300 / 301), Fin (1 / 301), Fin 0], [Fin 0, Fin (1 / 301), Fin (300 / 301)]]"
  by (simp add: output_matrix_def example_expand_B divide_rows_def np_true_divide_def)

lemma example_coarse:
  "coarse_transition_matrix example_inv example_msm example_pcca (1 / 300) =
     Inr [[Fin (9 / 10), Fin (1 / 10)], [Fin (1 / 10), Fin (9 / 10)]]"
  by (simp add: coarse_transition_matrix_def example_msm_def example_pcca_def example_inv_def
      np_dot_def ncols_def np_diag_matrix_def np_maximum_def divide_rows_def np_true_divide_def
      numeral_2_eq_2)

lemma initial_model_discrete_fails:
  "isl (initial_model_discrete env observations nstates lag rv)"
  by (auto simp: initial_model_discrete_def HMM_init_not_array [of "PyInt (int nstates)"]
      split: sum.splits prod.splits)

text \<open>
  C1: the estimation and the decomposition succeed on the example, and the output matrix
  and the coarse matrix are computed, but no model is returned: the constructor receives
  \<open>nstates\<close> as its transition matrix and the coarse matrix \<open>A\<close> as its output model, and
  its first assertion fails. By \<open>initial_model_discrete_fails\<close> the function returns a
  model on no input at all.
\<close>

theorem initial_model_discrete_example:
  "initial_model_discrete example_pyemma [[0, 2, 0, 2]] 2 1 True =
     Inl (AssertionError ''Given transition matrix is not a stochastic matrix'')"
  by (simp add: initial_model_discrete_def example_pyemma_def example_eps example_output_matrix
      example_coarse HMM_init_def example_analysis_def)

lemma assign_row_last:
  assumes "j < length row" and "k < length jvs" and "fst (jvs ! k) = j"
    and "\<forall>k'. k < k' \<and> k' < length jvs \<longrightarrow> fst (jvs ! k') \<noteq> j"
  shows "assign_row row jvs ! j = snd (jvs ! k)"
  using assms
proof (induction row jvs arbitrary: k rule: assign_row.induct)
  case (1 row)
  then show ?case by simp
next
  case (2 row j0 v jvs)
  show ?case
  proof (cases k)
    case 0
    with 2(4) have j0: "j0 = j" by simp
    have "j \<notin> fst ` set jvs"
    proof
      assume "j \<in> fst ` set jvs"
      then obtain i where "i < length jvs" "fst (jvs ! i) = j"
        by (auto simp: in_set_conv_nth)
      with 2(5) 0 show False by (auto dest: spec [of _ "Suc i"])
    qed
    then have "assign_row (row[j0 := v]) jvs ! j = (row[j0 := v]) ! j"
      by (rule assign_row_other)
    with j0 0 2(2) show ?thesis by simp
  next
    case (Suc k0)
    have "assign_row (row[j0 := v]) jvs ! j = snd (jvs ! k0)"
    proof (rule 2(1))
      show "j < length (row[j0 := v])" using 2(2) by simp
      show "k0 < length jvs" using 2(3) Suc by simp
      show "fst (jvs ! k0) = j" using 2(4) Suc by simp
      show "\<forall>k'. k0 < k' \<and> k' < length jvs \<longrightarrow> fst (jvs ! k') \<noteq> j"
        using 2(5) Suc by (auto dest: spec [of _ "Suc k'" for k'])
    qed
    with Suc show ?thesis by simp
  qed
qed

lemma np_index_bound: "np_index c x = Inr j \<Longrightarrow> j < c"
  by (auto simp: np_index_def Let_def split: if_splits)

lemma sequence_error_same:
  "\<forall>x\<in>set xs. f x = Inr x \<Longrightarrow> sequence_error (map f xs) = Inr xs"
  by (induction xs) auto

lemma broadcast_to_exact:
  assumes "length md = r" and "list_all (\<lambda>row. length row = c) md"
  shows "broadcast_to r c md = Inr md"
proof -
  from assms(2) have "sequence_error (map (broadcast_axis c) md) = Inr md"
    by (intro sequence_error_same) (simp add: list_all_iff broadcast_axis_def)
  with assms(1) show ?thesis by (simp add: broadcast_to_def broadcast_axis_def)
qed

lemma expand_B_D:
  assumes "expand_B m nstates eps = Inr B0"
  shows "\<exists>js V. map (np_index (msm_nstates m)) (active_set m) = map Inr js \<and>
     broadcast_to nstates (length (active_set m)) (metastable_distributions m) = Inr V \<and>
     length V = nstates \<and> (\<forall>row\<in>set V. length row = length (active_set m)) \<and>
     length B0 = nstates \<and>
     (\<forall>i<nstates. B0 ! i = assign_row (replicate (msm_nstates m) eps) (zip js (V ! i)))"
proof -
  let ?B = "replicate nstates (replicate (msm_nstates m) eps)"
  from assms obtain js V where
    js: "sequence_error (map (np_index (msm_nstates m)) (active_set m)) = Inr js" and
    V: "broadcast_to nstates (length (active_set m)) (metastable_distributions m) = Inr V" and
    B: "B0 = map2 (\<lambda>row vs. assign_row row (zip js vs)) ?B V"
    by (auto simp: expand_B_def assign_columns_def split: sum.splits)
  from broadcast_to_shape [OF V] have sh: "length V = nstates"
    "\<forall>row\<in>set V. length row = length (active_set m)" by simp_all
  with B have "length B0 = nstates"
    "\<forall>i<nstates. B0 ! i = assign_row (replicate (msm_nstates m) eps) (zip js (V ! i))"
    by simp_all
  with sequence_error_Inr [OF js] V sh show ?thesis by blast
qed

lemma expand_B_shape:
  assumes "expand_B m nstates eps = Inr B0"
  shows "length B0 = nstates \<and> (\<forall>i<nstates. length (B0 ! i) = msm_nstates m)"
  using expand_B_D [OF assms] by (auto simp: assign_row_length)

lemma expand_B_connected:
  assumes "expand_B m nstates eps = Inr B0"
  shows "\<exists>V. broadcast_to nstates (length (active_set m)) (metastable_distributions m) = Inr V \<and>
    (\<forall>i j k. i < nstates \<and> k < length (active_set m) \<and>
        np_index (msm_nstates m) (active_set m ! k) = Inr j \<and>
        (\<forall>k'. k < k' \<and> k' < length (active_set m) \<longrightarrow>
           np_index (msm_nstates m) (active_set m ! k') \<noteq> Inr j) \<longrightarrow>
        B0 ! i ! j = V ! i ! k)"
proof -
  from expand_B_D [OF assms] obtain js V where
    js: "map (np_index (msm_nstates m)) (active_set m) = map Inr js" and
    V: "broadcast_to nstates (length (active_set m)) (metastable_distributions m) = Inr V" and
    lV: "length V = nstates" "\<forall>row\<in>set V. length row = length (active_set m)" and
    B: "\<forall>i<nstates. B0 ! i = assign_row (replicate (msm_nstates m) eps) (zip js (V ! i))"
    by blast
  from js have ljs: "length js = length (active_set m)" by (metis length_map)
  from js have nth: "np_index (msm_nstates m) (active_set m ! k) = Inr (js ! k)"
    if "k < length (active_set m)" for k
    using that by (metis length_map nth_map ljs)
  have "B0 ! i ! j = V ! i ! k"
    if i: "i < nstates" and k: "k < length (active_set m)"
      and hit: "np_index (msm_nstates m) (active_set m ! k) = Inr j"
      and last: "\<forall>k'. k < k' \<and> k' < length (active_set m) \<longrightarrow>
           np_index (msm_nstates m) (active_set m ! k') \<noteq> Inr j"
    for i j k
  proof -
    from i lV have lrow: "length (V ! i) = length (active_set m)" by simp
    from hit nth [OF k] have jk: "js ! k = j" by simp
    from hit have jc: "j < msm_nstates m" by (rule np_index_bound)
    have "assign_row (replicate (msm_nstates m) eps) (zip js (V ! i)) ! j
        = snd (zip js (V ! i) ! k)"
    proof (rule assign_row_last)
      show "j < length (replicate (msm_nstates m) eps)" using jc by simp
      show "k < length (zip js (V ! i))" using k lrow ljs by simp
      show "fst (zip js (V ! i) ! k) = j" using k lrow ljs jk by simp
      show "\<forall>k'. k < k' \<and> k' < length (zip js (V ! i)) \<longrightarrow> fst (zip js (V ! i) ! k') \<noteq> j"
        using last nth lrow ljs by auto
    qed
    with B i k lrow ljs show ?thesis by simp
  qed
  with V show ?thesis by blast
qed

lemma output_matrix_entries:
  assumes "expand_B m nstates eps = Inr B0"
  shows "\<exists>B. output_matrix m nstates eps = Inr B \<and> length B = nstates \<and>
    (\<forall>i<nstates. length (B ! i) = msm_nstates m \<and>
       (\<forall>j<msm_nstates m. B ! i ! j = np_true_divide (B0 ! i ! j) (sum_list (B0 ! i))) \<and>
       (sum_list (B0 ! i) \<noteq> 0 \<longrightarrow> row_sums_to_one (B ! i)))"
proof -
  from expand_B_shape [OF assms] have sh: "length B0 = nstates"
    "\<forall>i<nstates. length (B0 ! i) = msm_nstates m" by simp_all
  have o: "output_matrix m nstates eps = Inr (divide_rows B0)"
    using assms by (simp add: output_matrix_def)
  have "length (divide_rows B0) = nstates" using sh by (simp add: divide_rows_def)
  moreover have "length (divide_rows B0 ! i) = msm_nstates m \<and>
       (\<forall>j<msm_nstates m. divide_rows B0 ! i ! j = np_true_divide (B0 ! i ! j) (sum_list (B0 ! i))) \<and>
       (sum_list (B0 ! i) \<noteq> 0 \<longrightarrow> row_sums_to_one (divide_rows B0 ! i))"
    if "i < nstates" for i
  proof -
    from that sh have "divide_rows B0 ! i
        = map (\<lambda>x. np_true_divide x (sum_list (B0 ! i))) (B0 ! i)"
      by (simp add: divide_rows_def)
    with that sh show ?thesis by (simp add: divide_row_sums_to_one)
  qed
  ultimately show ?thesis using o by blast
qed

lemma expand_B_columns:
  assumes e: "expand_B m nstates eps = Inr B0"
  shows "length B0 = nstates \<and> (\<forall>i<nstates. length (B0 ! i) = msm_nstates m) \<and>
       (\<forall>i j. i < nstates \<and> j < msm_nstates m \<and>
          Inr j \<notin> set (map (np_index (msm_nstates m)) (active_set m)) \<longrightarrow> B0 ! i ! j = eps) \<and>
       (\<exists>V. broadcast_to nstates (length (active_set m)) (metastable_distributions m) = Inr V \<and>
          (length (metastable_distributions m) = nstates \<and>
           list_all (\<lambda>row. length row = length (active_set m)) (metastable_distributions m) \<longrightarrow>
             V = metastable_distributions m) \<and>
          (\<forall>i j k. i < nstates \<and> k < length (active_set m) \<and>
             np_index (msm_nstates m) (active_set m ! k) = Inr j \<and>
             (\<forall>k'. k < k' \<and> k' < length (active_set m) \<longrightarrow>
                np_index (msm_nstates m) (active_set m ! k') \<noteq> Inr j) \<longrightarrow>
             B0 ! i ! j = V ! i ! k)) \<and>
       (\<exists>B. output_matrix m nstates eps = Inr B \<and> length B = nstates \<and>
          (\<forall>i<nstates. length (B ! i) = msm_nstates m \<and>
             (\<forall>j<msm_nstates m. B ! i ! j = np_true_divide (B0 ! i ! j) (sum_list (B0 ! i))) \<and>
             (sum_list (B0 ! i) \<noteq> 0 \<longrightarrow> row_sums_to_one (B ! i))))"
proof -
  have s1: "length B0 = nstates" using expand_B_shape [OF e] by simp
  have s2: "\<forall>i<nstates. length (B0 ! i) = msm_nstates m" using expand_B_shape [OF e] by simp
  have u: "\<forall>i j. i < nstates \<and> j < msm_nstates m \<and>
          Inr j \<notin> set (map (np_index (msm_nstates m)) (active_set m)) \<longrightarrow> B0 ! i ! j = eps"
    using expand_B_unconnected [OF e] by blast
  from expand_B_connected [OF e] obtain V where
    V: "broadcast_to nstates (length (active_set m)) (metastable_distributions m) = Inr V" and
    c: "\<forall>i j k. i < nstates \<and> k < length (active_set m) \<and>
             np_index (msm_nstates m) (active_set m ! k) = Inr j \<and>
             (\<forall>k'. k < k' \<and> k' < length (active_set m) \<longrightarrow>
                np_index (msm_nstates m) (active_set m ! k') \<noteq> Inr j) \<longrightarrow>
             B0 ! i ! j = V ! i ! k"
    by blast
  have x: "length (metastable_distributions m) = nstates \<and>
           list_all (\<lambda>row. length row = length (active_set m)) (metastable_distributions m) \<longrightarrow>
             V = metastable_distributions m"
    using V broadcast_to_exact [of "metastable_distributions m" nstates "length (active_set m)"]
    by auto
  have v: "\<exists>V. broadcast_to nstates (length (active_set m)) (metastable_distributions m) = Inr V \<and>
          (length (metastable_distributions m) = nstates \<and>
           list_all (\<lambda>row. length row = length (active_set m)) (metastable_distributions m) \<longrightarrow>
             V = metastable_distributions m) \<and>
          (\<forall>i j k. i < nstates \<and> k < length (active_set m) \<and>
             np_index (msm_nstates m) (active_set m ! k) = Inr j \<and>
             (\<forall>k'. k < k' \<and> k' < length (active_set m) \<longrightarrow>
                np_index (msm_nstates m) (active_set m ! k') \<noteq> Inr j) \<longrightarrow>
             B0 ! i ! j = V ! i ! k)"
    using V x c by (intro exI [of _ V] conjI)
  note o = output_matrix_entries [OF e]
  from s1 s2 u v o show ?thesis by (intro conjI)
qed

text \<open>
  C5, as the code has it. The floor \<open>eps = 0.01 / MSM.nstates\<close> is positive. Before the
  renormalization the output matrix has \<open>nstates\<close> rows and \<open>MSM.nstates\<close> columns; every
  entry in a column outside the active set is \<open>eps\<close>; and the column with the index
  \<open>active_set[k]\<close> is the column \<open>k\<close> of the metastable distributions (broadcast to
  \<open>nstates\<close> rows and as many columns as the active set has indices; where an index occurs
  more than once, the last occurrence), whatever its entries are. The output matrix is
  that matrix with every entry divided by the sum of its row, and every row whose sum
  before the renormalization is not zero sums to one. In the coarse transition matrix every
  entry is positive and every row sums to one, whatever the projection was before it was
  floored.
\<close>

theorem discrete_initial_matrices:
  assumes "default_eps m = Inr eps"
  shows "0 < eps \<and> eps = (1 / 100) / real (msm_nstates m) \<and>
    (\<forall>B0. expand_B m nstates eps = Inr B0 \<longrightarrow>
       length B0 = nstates \<and> (\<forall>i<nstates. length (B0 ! i) = msm_nstates m) \<and>
       (\<forall>i j. i < nstates \<and> j < msm_nstates m \<and>
          Inr j \<notin> set (map (np_index (msm_nstates m)) (active_set m)) \<longrightarrow> B0 ! i ! j = eps) \<and>
       (\<exists>V. broadcast_to nstates (length (active_set m)) (metastable_distributions m) = Inr V \<and>
          (length (metastable_distributions m) = nstates \<and>
           list_all (\<lambda>row. length row = length (active_set m)) (metastable_distributions m) \<longrightarrow>
             V = metastable_distributions m) \<and>
          (\<forall>i j k. i < nstates \<and> k < length (active_set m) \<and>
             np_index (msm_nstates m) (active_set m ! k) = Inr j \<and>
             (\<forall>k'. k < k' \<and> k' < length (active_set m) \<longrightarrow>
                np_index (msm_nstates m) (active_set m ! k') \<noteq> Inr j) \<longrightarrow>
             B0 ! i ! j = V ! i ! k)) \<and>
       (\<exists>B. output_matrix m nstates eps = Inr B \<and> length B = nstates \<and>
          (\<forall>i<nstates. length (B ! i) = msm_nstates m \<and>
             (\<forall>j<msm_nstates m. B ! i ! j = np_true_divide (B0 ! i ! j) (sum_list (B0 ! i))) \<and>
             (sum_list (B0 ! i) \<noteq> 0 \<longrightarrow> row_sums_to_one (B ! i))))) \<and>
    (\<forall>A. coarse_transition_matrix linv m pc eps = Inr A \<longrightarrow>
        list_all (\<lambda>row. row \<noteq> [] \<longrightarrow> list_all positive_entry row \<and> row_sums_to_one row) A)"
proof (intro conjI)
  show "0 < eps" using assms by (rule default_eps_pos)
  show "eps = (1 / 100) / real (msm_nstates m)"
    using assms by (auto simp: default_eps_def split: if_splits)
  show "\<forall>A. coarse_transition_matrix linv m pc eps = Inr A \<longrightarrow>
        list_all (\<lambda>row. row \<noteq> [] \<longrightarrow> list_all positive_entry row \<and> row_sums_to_one row) A"
    using coarse_transition_matrix_rows [OF _ default_eps_pos [OF assms]] by blast
  show "\<forall>B0. expand_B m nstates eps = Inr B0 \<longrightarrow>
       length B0 = nstates \<and> (\<forall>i<nstates. length (B0 ! i) = msm_nstates m) \<and>
       (\<forall>i j. i < nstates \<and> j < msm_nstates m \<and>
          Inr j \<notin> set (map (np_index (msm_nstates m)) (active_set m)) \<longrightarrow> B0 ! i ! j = eps) \<and>
       (\<exists>V. broadcast_to nstates (length (active_set m)) (metastable_distributions m) = Inr V \<and>
          (length (metastable_distributions m) = nstates \<and>
           list_all (\<lambda>row. length row = length (active_set m)) (metastable_distributions m) \<longrightarrow>
             V = metastable_distributions m) \<and>
          (\<forall>i j k. i < nstates \<and> k < length (active_set m) \<and>
             np_index (msm_nstates m) (active_set m ! k) = Inr j \<and>
             (\<forall>k'. k < k' \<and> k' < length (active_set m) \<longrightarrow>
                np_index (msm_nstates m) (active_set m ! k') \<noteq> Inr j) \<longrightarrow>
             B0 ! i ! j = V ! i ! k)) \<and>
       (\<exists>B. output_matrix m nstates eps = Inr B \<and> length B = nstates \<and>
          (\<forall>i<nstates. length (B ! i) = msm_nstates m \<and>
             (\<forall>j<msm_nstates m. B ! i ! j = np_true_divide (B0 ! i ! j) (sum_list (B0 ! i))) \<and>
             (sum_list (B0 ! i) \<noteq> 0 \<longrightarrow> row_sums_to_one (B ! i))))"
  proof (intro allI impI)
    fix B0 assume "expand_B m nstates eps = Inr B0"
    then show "length B0 = nstates \<and> (\<forall>i<nstates. length (B0 ! i) = msm_nstates m) \<and>
       (\<forall>i j. i < nstates \<and> j < msm_nstates m \<and>
          Inr j \<notin> set (map (np_index (msm_nstates m)) (active_set m)) \<longrightarrow> B0 ! i ! j = eps) \<and>
       (\<exists>V. broadcast_to nstates (length (active_set m)) (metastable_distributions m) = Inr V \<and>
          (length (metastable_distributions m) = nstates \<and>
           list_all (\<lambda>row. length row = length (active_set m)) (metastable_distributions m) \<longrightarrow>
             V = metastable_distributions m) \<and>
          (\<forall>i j k. i < nstates \<and> k < length (active_set m) \<and>
             np_index (msm_nstates m) (active_set m ! k) = Inr j \<and>
             (\<forall>k'. k < k' \<and> k' < length (active_set m) \<longrightarrow>
                np_index (msm_nstates m) (active_set m ! k') \<noteq> Inr j) \<longrightarrow>
             B0 ! i ! j = V ! i ! k)) \<and>
       (\<exists>B. output_matrix m nstates eps = Inr B \<and> length B = nstates \<and>
          (\<forall>i<nstates. length (B ! i) = msm_nstates m \<and>
             (\<forall>j<msm_nstates m. B ! i ! j = np_true_divide (B0 ! i ! j) (sum_list (B0 ! i))) \<and>
             (sum_list (B0 ! i) \<noteq> 0 \<longrightarrow> row_sums_to_one (B ! i))))"
      by (rule expand_B_columns)
  qed
qed

theorem discrete_initial_matrices_witness:
  "default_eps example_msm = Inr (1 / 300) \<and>
   expand_B example_msm 2 (1 / 300) = Inr [[1, 1 / 300, 0], [0, 1 / 300, 1]] \<and>
   Inr 1 \<notin> set (map (np_index (msm_nstates example_msm)) (active_set example_msm)) \<and>
   [[1, 1 / 300, 0], [0, 1 / 300, 1 :: real]] ! 0 ! 1 = 1 / 300 \<and>
   length (metastable_distributions example_msm) = 2 \<and>
   list_all (\<lambda>row. length row = length (active_set example_msm))
     (metastable_distributions example_msm) \<and>
   np_index (msm_nstates example_msm) (active_set example_msm ! 1) = Inr 2 \<and>
   [[1, 1 / 300, 0], [0, 1 / 300, 1 :: real]] ! 1 ! 2
     = metastable_distributions example_msm ! 1 ! 1 \<and>
   output_matrix example_msm 2 (1 / 300) =
     Inr [[Fin (300 / 301), Fin (1 / 301), Fin 0], [Fin 0, Fin (1 / 301), Fin (300 / 301)]] \<and>
   row_sums_to_one [Fin (300 / 301), Fin (1 / 301), Fin 0] \<and>
   coarse_transition_matrix example_inv example_msm example_pcca (1 / 300) =
     Inr [[Fin (9 / 10), Fin (1 / 10)], [Fin (1 / 10), Fin (9 / 10)]] \<and>
   list_all (\<lambda>row. row \<noteq> [] \<longrightarrow> list_all positive_entry row \<and> row_sums_to_one row)
     [[Fin (9 / 10), Fin (1 / 10)], [Fin (1 / 10), Fin (9 / 10)]]"
  using discrete_initial_matrices [of example_msm "1 / 300" 2 example_inv example_pcca]
    example_eps example_expand_B example_output_matrix example_coarse
  by (simp add: example_msm_def np_index_def row_sums_to_one_def positive_entry_def)

text \<open>
  C5, as the spec states it, fails: on the example the output matrix has entries that are
  exactly zero, below the floor \<open>1/300\<close>, in the columns of the active set.
\<close>

theorem output_matrix_keeps_zero_entries:
  "default_eps example_msm = Inr (1 / 300) \<and>
   output_matrix example_msm 2 (1 / 300) =
     Inr [[Fin (300 / 301), Fin (1 / 301), Fin 0], [Fin 0, Fin (1 / 301), Fin (300 / 301)]]"
  by (simp add: example_eps output_matrix_def example_expand_B divide_rows_def np_true_divide_def)

section \<open>Synthetic state trajectories\<close>

text \<open>
  C3, as the code has it: there is no check of \<open>length\<close>. For a negative \<open>length\<close> the
  allocation of the array raises \<open>ValueError\<close> and nothing is drawn; for \<open>length = 0\<close> the
  first state is drawn from the random source and storing it raises \<open>IndexError\<close>, unless
  the draw itself raises. In no case is a trajectory returned.
\<close>

theorem generate_invalid_length:
  assumes "len < 1"
  shows "generate_synthetic_state_trajectory choice h len initial_Pi rng =
      (if len < 0 then (Inl (ValueError ''negative dimensions are not allowed''), rng)
       else (case choice rng (h_nstates h) (case initial_Pi of Some p \<Rightarrow> p | None \<Rightarrow> h_Pi h) of
               (Inl e, rng') \<Rightarrow> (Inl e, rng')
             | (Inr s, rng') \<Rightarrow> (Inl IndexError, rng'))) \<and>
    isl (fst (generate_synthetic_state_trajectory choice h len initial_Pi rng))"
proof (cases "len < 0")
  case True
  then show ?thesis
    by (simp add: generate_synthetic_state_trajectory_def np_zeros1_def)
next
  case False
  with assms have "len = 0" by simp
  then show ?thesis
    by (auto simp: generate_synthetic_state_trajectory_def np_zeros1_def np_store_def
        np_index_def split: prod.splits sum.splits)
qed

theorem generate_invalid_length_witness:
  "(0::int) < 1 \<and> (- 1::int) < 1 \<and>
   isl (fst (generate_synthetic_state_trajectory counting_choice example_hmm 0 None 0)) \<and>
   generate_synthetic_state_trajectory counting_choice example_hmm (- 1) None 0
     = (Inl (ValueError ''negative dimensions are not allowed''), 0)"
  using generate_invalid_length [of 0 counting_choice example_hmm None 0]
    generate_invalid_length [of "- 1" counting_choice example_hmm None 0]
  by (simp add: counting_choice_def)

text \<open>
  C3, as the spec states it, fails: for \<open>length = 0\<close> the error is the \<open>IndexError\<close> of the
  store into the empty array, raised after one draw from the random source; and when the
  given initial distribution is refused by the random source, the error is the one of
  the draw. Neither is an error about the length.
\<close>

theorem generate_length_zero_other_errors:
  "generate_synthetic_state_trajectory counting_choice example_hmm 0 None 0
     = (Inl IndexError, Suc 0) \<and>
   generate_synthetic_state_trajectory checking_choice example_hmm 0
       (Some [Fin (1 / 2), Fin (1 / 4)]) 0
     = (Inl (ValueError ''probabilities do not sum to 1''), 0)"
  by (simp add: generate_synthetic_state_trajectory_def np_zeros1_def np_store_def
      np_index_def counting_choice_def checking_choice_def row_sums_to_one_def)

end
